theory Spec2Isabelle
  imports Complex_Main "HOL-Library.Sublist"
begin


section \<open>Python values used by the folding wrappers\<close>

text \<open>
  Python integers are \<open>int\<close>, Python strings are \<open>string\<close> (the sequences handled here
  are ASCII), and every \<open>raise\<close> of the source is a value \<open>Inl e\<close> of a sum type.
  The messages of the \<open>ValueError\<close>s are kept as constructors, with the numbers the
  f-strings print.
\<close>

datatype value_error =
    Start_greater_end int int
  | Start_out_of_bounds int
  | End_out_of_bounds int int
  | Wrongly_formatted
  | Not_a_plfold_string
  | Cannot_convert_NaN
  | Could_not_convert_string
  | Empty_separator
  | Ambiguous_truth_value
  | Shape_mismatch

datatype py_error =
    ValueError value_error
  | NotImplementedError
  | IndexError
  | TypeError
  | OverflowError
  | AssertionError
  | UnboundLocalError
  | PlainException

text \<open>\<open>xs[i]\<close> and \<open>xs[i] = v\<close> on a Python list or string: a negative index counts from
  the end, anything else out of range raises IndexError (here \<open>None\<close>).\<close>

definition py_norm_index :: "'a list \<Rightarrow> int \<Rightarrow> nat option" where
  "py_norm_index xs i =
     (if 0 \<le> i \<and> i < int (length xs) then Some (nat i)
      else if i < 0 \<and> 0 \<le> int (length xs) + i then Some (nat (int (length xs) + i))
      else None)"

definition py_getitem :: "'a list \<Rightarrow> int \<Rightarrow> 'a option" where
  "py_getitem xs i = (case py_norm_index xs i of None \<Rightarrow> None | Some j \<Rightarrow> Some (xs ! j))"

definition py_setitem :: "'a list \<Rightarrow> int \<Rightarrow> 'a \<Rightarrow> 'a list option" where
  "py_setitem xs i v = (case py_norm_index xs i of None \<Rightarrow> None | Some j \<Rightarrow> Some (xs[j := v]))"

text \<open>\<open>range(a, b)\<close> over integers.\<close>

definition py_range :: "int \<Rightarrow> int \<Rightarrow> int list" where
  "py_range a b = [a..b - 1]"

text \<open>The truth value of an optional integer argument (\<open>if fstart and fend\<close>): \<open>None\<close>
  and \<open>0\<close> are false.\<close>

fun py_truthy :: "int option \<Rightarrow> bool" where
  "py_truthy None = False"
| "py_truthy (Some n) = (n \<noteq> 0)"

text \<open>\<open>s.replace(old, new)\<close> for a non-empty \<open>old\<close> (every call of the source passes a
  non-empty literal): the leftmost occurrences, not overlapping.\<close>

function py_replace :: "string \<Rightarrow> string \<Rightarrow> string \<Rightarrow> string" where
  "py_replace old new [] = []"
| "py_replace old new (c # cs) =
     (if old \<noteq> [] \<and> prefix old (c # cs)
      then new @ py_replace old new (drop (length old) (c # cs))
      else c # py_replace old new cs)"
  by pat_completeness auto
termination
  by (relation "measure (\<lambda>(old, new, s). length s)") (auto simp: Suc_le_eq)

text \<open>\<open>s.upper()\<close> on ASCII text.\<close>

definition py_upper_char :: "char \<Rightarrow> char" where
  "py_upper_char c =
     (let n = (of_char c :: nat) in if 97 \<le> n \<and> n \<le> 122 then char_of (n - 32) else c)"

definition py_upper :: "string \<Rightarrow> string" where
  "py_upper s = map py_upper_char s"

text \<open>\<open>str(x)\<close> of a value that is a string or \<open>None\<close>.\<close>

fun py_str :: "string option \<Rightarrow> string" where
  "py_str None = ''None''"
| "py_str (Some s) = s"

section \<open>Constraint checking and application (RNAtweaks.py)\<close>

text \<open>\<open>_check_constraint(sequence_length, start, end)\<close>.\<close>

definition check_constraint :: "int \<Rightarrow> int \<Rightarrow> int \<Rightarrow> py_error + unit" where
  "check_constraint sequence_length start en =
     (if start > en then Inl (ValueError (Start_greater_end start en))
      else if start < 0 then Inl (ValueError (Start_out_of_bounds start))
      else if sequence_length < en then Inl (ValueError (End_out_of_bounds en sequence_length))
      else Inr ())"

text \<open>
  The ViennaRNA fold compound is external. The model keeps what the wrappers hand to it:
  the sequence and model details it was created from, and the constraint calls made on
  it, in order. The engine's own methods are taken not to raise.
\<close>

record model_details =
  max_bp_span :: int
  window_size :: int
  temperature :: real

datatype fc_call =
    Hc_add_bp_nonspecific int int
  | Hc_add_up int
  | Sc_add_up int string

record fold_compound =
  fc_sequence :: string
  fc_md :: model_details
  fc_calls :: "fc_call list"

definition new_fold_compound :: "string \<Rightarrow> model_details \<Rightarrow> fold_compound" where
  "new_fold_compound s md = \<lparr>fc_sequence = s, fc_md = md, fc_calls = []\<rparr>"

definition fc_add :: "fold_compound \<Rightarrow> fc_call list \<Rightarrow> fold_compound" where
  "fc_add fc cs = fc\<lparr>fc_calls := fc_calls fc @ cs\<rparr>"

text \<open>\<open>_constrain_paired\<close>, \<open>_constrain_unpaired\<close>, \<open>_constrain_unpaired_soft\<close>: one engine
  call for each \<open>x\<close> in \<open>range(start + 1, end + 1)\<close>, and the same for the second region
  when both of its bounds are truthy.\<close>

definition constrain_paired ::
  "fold_compound \<Rightarrow> int \<Rightarrow> int \<Rightarrow> int option \<Rightarrow> int option \<Rightarrow> fold_compound" where
  "constrain_paired fc start en fstart fend =
     (let fc1 = fc_add fc (map (\<lambda>x. Hc_add_bp_nonspecific x 0) (py_range (start + 1) (en + 1)))
      in if py_truthy fstart \<and> py_truthy fend
         then fc_add fc1 (map (\<lambda>x. Hc_add_bp_nonspecific x 0)
                (py_range (the fstart + 1) (the fend + 1)))
         else fc1)"

definition constrain_unpaired ::
  "fold_compound \<Rightarrow> int \<Rightarrow> int \<Rightarrow> int option \<Rightarrow> int option \<Rightarrow> fold_compound" where
  "constrain_unpaired fc start en fstart fend =
     (let fc1 = fc_add fc (map Hc_add_up (py_range (start + 1) (en + 1)))
      in if py_truthy fstart \<and> py_truthy fend
         then fc_add fc1 (map Hc_add_up (py_range (the fstart + 1) (the fend + 1)))
         else fc1)"

definition constrain_unpaired_soft ::
  "fold_compound \<Rightarrow> int \<Rightarrow> int \<Rightarrow> string \<Rightarrow> int option \<Rightarrow> int option \<Rightarrow> fold_compound" where
  "constrain_unpaired_soft fc start en val fstart fend =
     (let fc1 = fc_add fc (map (\<lambda>x. Sc_add_up x val) (py_range (start + 1) (en + 1)))
      in if py_truthy fstart \<and> py_truthy fend
         then fc_add fc1 (map (\<lambda>x. Sc_add_up x val) (py_range (the fstart + 1) (the fend + 1)))
         else fc1)"

text \<open>\<open>_constrain_paired_soft\<close> raises before it does anything.\<close>

definition constrain_paired_soft ::
  "fold_compound \<Rightarrow> int \<Rightarrow> int \<Rightarrow> string \<Rightarrow> int option \<Rightarrow> int option \<Rightarrow> py_error + fold_compound" where
  "constrain_paired_soft fc start en val fstart fend = Inl NotImplementedError"

text \<open>
  \<open>_mutate(sequence, start, end, value, fstart, fend)\<close>. The loop
  \<open>for x in range(start, end): seq[x] = value[x - start]\<close> runs over a list of the
  characters; an IndexError of either subscript is caught by the function's
  \<open>except Exception\<close>, which logs it and lets the function return \<open>None\<close>.
\<close>

fun mutate_loop :: "string \<Rightarrow> int \<Rightarrow> string \<Rightarrow> int list \<Rightarrow> string option" where
  "mutate_loop seq start val [] = Some seq"
| "mutate_loop seq start val (x # xs) =
     (case py_getitem val (x - start) of
        None \<Rightarrow> None
      | Some c \<Rightarrow>
          (case py_setitem seq x c of
             None \<Rightarrow> None
           | Some seq' \<Rightarrow> mutate_loop seq' start val xs))"

definition mutate ::
  "string \<Rightarrow> int \<Rightarrow> int \<Rightarrow> string \<Rightarrow> int option \<Rightarrow> int option \<Rightarrow> string option" where
  "mutate sequence start en val fstart fend =
     (case mutate_loop sequence start val (py_range start en) of
        None \<Rightarrow> None
      | Some seq \<Rightarrow>
          if py_truthy fstart \<and> py_truthy fend
          then mutate_loop seq (the fstart) val (py_range (the fstart) (the fend))
          else Some seq)"

section \<open>The windowed folding wrappers (RNAtweaks.py)\<close>

text \<open>A constraint entry is the tuple \<open>(mode, start, end)\<close>, zero based.\<close>

type_synonym constraint_entry = "string \<times> int \<times> int"

text \<open>The two \<open>log.warning\<close> calls of the window and span check, with the numbers they
  print.\<close>

datatype warning =
    Window_larger_than_sequence int int
  | Span_larger_than_window int int

text \<open>
  \<open>api_rnaplfold\<close> up to its call \<open>fc.probs_window(region, ...)\<close>: the model returns
  the fold compound that call is made on, the region, and the warnings logged so far.
  What ViennaRNA computes from them is external.
\<close>

record fold_request =
  fr_fc :: fold_compound
  fr_region :: int
  fr_warnings :: "warning list"

text \<open>The body of \<open>for entry in constraint\<close> in \<open>api_rnaplfold\<close>. The loop state is the
  fold compound and the variable \<open>sequence\<close>, which \<open>_mutate\<close> may set to \<open>None\<close>.
  In the conditions \<open>and\<close> binds tighter than \<open>or\<close>, as Python parses them.\<close>

definition api_constraint_step ::
  "string \<Rightarrow> string \<Rightarrow> model_details \<Rightarrow> int \<Rightarrow> fold_compound \<times> string option
     \<Rightarrow> constraint_entry \<Rightarrow> py_error + (fold_compound \<times> string option)" where
  "api_constraint_step constype consval md seqlen st entry =
     (let fc = fst st; sequence = snd st;
          mode = (if constype \<in> set [''hard'', ''soft''] then fst entry else ''mutate'');
          start = fst (snd entry);
          en = snd (snd entry);
          val = consval
      in case check_constraint seqlen start en of
           Inl e \<Rightarrow> Inl e
         | Inr _ \<Rightarrow>
             if mode = ''paired'' \<or> (mode = ''p'' \<and> constype = ''hard'')
             then Inr (constrain_paired fc start en None None, sequence)
             else if mode = ''unpaired'' \<or> (mode = ''u'' \<and> constype = ''hard'')
             then Inr (constrain_unpaired fc start en None None, sequence)
             else if mode = ''mutate''
             then (let sequence' = mutate (py_str sequence) start (en - 1) val None None
                   in Inr (new_fold_compound (py_str sequence') md, sequence'))
             else if mode = ''unpaired'' \<or> (mode = ''u'' \<and> constype = ''soft'')
             then Inr (constrain_unpaired_soft fc start en val None None, sequence)
             else if mode = ''paired'' \<or> (mode = ''p'' \<and> constype = ''soft'')
             then Inl NotImplementedError
             else Inl (ValueError Wrongly_formatted))"

fun api_constraint_loop ::
  "string \<Rightarrow> string \<Rightarrow> model_details \<Rightarrow> int \<Rightarrow> fold_compound \<times> string option
     \<Rightarrow> constraint_entry list \<Rightarrow> py_error + (fold_compound \<times> string option)" where
  "api_constraint_loop constype consval md seqlen st [] = Inr st"
| "api_constraint_loop constype consval md seqlen st (entry # rest) =
     (case api_constraint_step constype consval md seqlen st entry of
        Inl e \<Rightarrow> Inl e
      | Inr st' \<Rightarrow> api_constraint_loop constype consval md seqlen st' rest)"

definition api_rnaplfold ::
  "string \<Rightarrow> int \<Rightarrow> int \<Rightarrow> int \<Rightarrow> real \<Rightarrow> string \<Rightarrow> string
     \<Rightarrow> constraint_entry list option \<Rightarrow> py_error + fold_request" where
  "api_rnaplfold sequence0 window0 span0 region temp constype consval constraint =
     (let sequence = py_replace ''T'' ''U'' (py_upper sequence0);
          len = int (length sequence);
          warn1 = (if window0 > len then [Window_larger_than_sequence window0 len] else []);
          window = (if window0 > len then len else window0);
          warn2 = (if span0 > window then [Span_larger_than_window span0 window] else []);
          span = (if span0 > window then window else span0);
          md = \<lparr>max_bp_span = span, window_size = window, temperature = temp\<rparr>;
          fc = new_fold_compound sequence md
      in case constraint of
           None \<Rightarrow> Inr \<lparr>fr_fc = fc, fr_region = region, fr_warnings = warn1 @ warn2\<rparr>
         | Some entries \<Rightarrow>
             (case api_constraint_loop constype consval md len (fc, Some sequence) entries of
                Inl e \<Rightarrow> Inl e
              | Inr st \<Rightarrow>
                  Inr \<lparr>fr_fc = fst st, fr_region = region, fr_warnings = warn1 @ warn2\<rparr>))"

text \<open>
  \<open>cmd_rnaplfold\<close> up to the start of the RNAplfold process: the model returns the
  options \<open>-W\<close>, \<open>-L\<close>, \<open>-u\<close>, \<open>-T\<close>, the lines of the constraint file and the
  sequence written to the standard input. A line \<open>f"{const} {start+1} {0} {end - start}"\<close>
  is kept as its four fields. Here the constraints are read before the window is checked,
  and the window is compared with the length of the sequence as it is then.
\<close>

type_synonym command_line = "string \<times> int \<times> int \<times> int"

record cmd_request =
  cmd_window :: int
  cmd_span :: int
  cmd_region :: int
  cmd_temperature :: real
  cmd_constraint_file :: "command_line list"
  cmd_stdin :: string
  cmd_warnings :: "warning list"

definition cmd_constraint_step ::
  "string \<Rightarrow> string \<Rightarrow> int \<Rightarrow> string \<times> command_line list
     \<Rightarrow> constraint_entry \<Rightarrow> py_error + (string \<times> command_line list)" where
  "cmd_constraint_step constype consval seqlen st entry =
     (let sequence = fst st; constraint_string = snd st;
          mode = (if constype \<in> set [''hard'', ''soft''] then fst entry else ''mutate'');
          start = fst (snd entry);
          en = snd (snd entry);
          val = consval
      in case check_constraint seqlen start en of
           Inl e \<Rightarrow> Inl e
         | Inr _ \<Rightarrow>
             if mode = ''paired'' \<or> mode = ''p''
             then Inr (sequence, constraint_string @ [(''F'', start + 1, 0, en - start)])
             else if mode = ''unpaired'' \<or> mode = ''u''
             then Inr (sequence, constraint_string @ [(''P'', start + 1, 0, en - start)])
             else if mode = ''mutate''
             then Inr (py_str (mutate sequence start (en - 1) val None None), constraint_string)
             else if (mode = ''unpaired'' \<or> mode = ''u'') \<and> constype = ''soft''
             then Inr (sequence, constraint_string @ [(''E'', start + 1, 0, en - start)])
             else if (mode = ''paired'' \<or> mode = ''p'') \<and> constype = ''soft''
             then Inl NotImplementedError
             else Inl (ValueError Wrongly_formatted))"

fun cmd_constraint_loop ::
  "string \<Rightarrow> string \<Rightarrow> int \<Rightarrow> string \<times> command_line list
     \<Rightarrow> constraint_entry list \<Rightarrow> py_error + (string \<times> command_line list)" where
  "cmd_constraint_loop constype consval seqlen st [] = Inr st"
| "cmd_constraint_loop constype consval seqlen st (entry # rest) =
     (case cmd_constraint_step constype consval seqlen st entry of
        Inl e \<Rightarrow> Inl e
      | Inr st' \<Rightarrow> cmd_constraint_loop constype consval seqlen st' rest)"

definition cmd_rnaplfold ::
  "string \<Rightarrow> int \<Rightarrow> int \<Rightarrow> int \<Rightarrow> real \<Rightarrow> string \<Rightarrow> string
     \<Rightarrow> constraint_entry list option \<Rightarrow> py_error + cmd_request" where
  "cmd_rnaplfold sequence0 window0 span0 region temp constype consval constraint =
     (case (case constraint of
              None \<Rightarrow> Inr (sequence0, [])
            | Some entries \<Rightarrow>
                cmd_constraint_loop constype consval (int (length sequence0)) (sequence0, []) entries) of
        Inl e \<Rightarrow> Inl e
      | Inr st \<Rightarrow>
          (let sequence = fst st;
               len = int (length sequence);
               warn1 = (if window0 > len then [Window_larger_than_sequence window0 len] else []);
               window = (if window0 > len then len else window0);
               warn2 = (if span0 > window then [Span_larger_than_window span0 window] else []);
               span = (if span0 > window then window else span0)
           in Inr \<lparr>cmd_window = window, cmd_span = span, cmd_region = region,
                    cmd_temperature = temp, cmd_constraint_file = snd st,
                    cmd_stdin = sequence, cmd_warnings = warn1 @ warn2\<rparr>))"


section \<open>Python floats\<close>

text \<open>
  A Python float is a finite number, an infinity or the not-a-number value. The finite
  values are written as reals; the comparisons, \<open>abs\<close>, \<open>isnan\<close> and \<open>int\<close> below are
  exact on floats, so they are the operations of the source. Every comparison with
  \<open>NaN\<close> is false.
\<close>

datatype pyfloat = NaN | NInf | Fin real | PInf

fun flt :: "pyfloat \<Rightarrow> pyfloat \<Rightarrow> bool" where
  "flt (Fin a) (Fin b) = (a < b)"
| "flt NInf (Fin b) = True"
| "flt NInf PInf = True"
| "flt (Fin a) PInf = True"
| "flt _ _ = False"


fun fabs :: "pyfloat \<Rightarrow> pyfloat" where
  "fabs NaN = NaN"
| "fabs NInf = PInf"
| "fabs (Fin a) = Fin \<bar>a\<bar>"
| "fabs PInf = PInf"

definition isnan :: "pyfloat \<Rightarrow> bool" where
  "isnan x = (x = NaN)"

text \<open>\<open>int(x)\<close> truncates towards zero and raises on \<open>NaN\<close> and on an infinity.\<close>

fun py_int :: "pyfloat \<Rightarrow> py_error + int" where
  "py_int NaN = Inl (ValueError Cannot_convert_NaN)"
| "py_int NInf = Inl OverflowError"
| "py_int PInf = Inl OverflowError"
| "py_int (Fin a) = Inr (if 0 \<le> a then \<lfloor>a\<rfloor> else \<lceil>a\<rceil>)"

section \<open>Region selection, BED variant (CollectConsResults.py)\<close>

text \<open>
  A line of the BED output is
  \<open>chrom, gpos, gend, goi|cons|gcons, value, strand, dist, int(noc[pos])\<close>, joined by
  tabs after \<open>str\<close>. The model keeps the fields.
\<close>

record bed_entry =
  be_chrom :: string
  be_start :: int
  be_end :: int
  be_goi :: string
  be_cons :: string
  be_gcons :: "int \<times> int"
  be_value :: pyfloat
  be_strand :: string
  be_dist :: int
  be_raw :: int

text \<open>The local variables of \<open>judge_diff\<close> when its loop starts.\<close>

record judge_ctx =
  jc_goi :: string
  jc_chrom :: string
  jc_strand :: string
  jc_cons :: string
  jc_cs :: int
  jc_ce :: int
  jc_ws :: int
  jc_we :: int
  jc_ulim :: int
  jc_border1 :: pyfloat
  jc_border2 :: pyfloat
  jc_noc :: "pyfloat list"

text \<open>
  The body of one of the two inner \<open>if\<close> statements of the loop, for the array \<open>arr\<close>
  (\<open>uc\<close> or \<open>pc\<close>): the distance, the genomic coordinates and the line. The test
  \<open>strand is not '-'\<close> compares one-character strings. A subscript out of range and
  \<open>int\<close> of a \<open>NaN\<close> or an infinity raise.
\<close>

definition bed_line :: "judge_ctx \<Rightarrow> pyfloat list \<Rightarrow> int \<Rightarrow> py_error + bed_entry" where
  "bed_line c arr pos =
     (let dist = (if jc_ce c < pos then (pos - jc_ce c) * - 1 else jc_cs c - pos);
          gpos = (if jc_strand c \<noteq> ''-'' then pos + jc_ws c else jc_we c - pos - jc_ulim c - 1);
          gend = gpos + jc_ulim c;
          gcons = (if jc_strand c \<noteq> ''-''
                   then (jc_cs c + jc_ws c, jc_ce c + jc_ws c)
                   else (jc_we c - jc_ce c - 1, jc_we c - jc_cs c))
      in case py_getitem arr pos of
           None \<Rightarrow> Inl IndexError
         | Some v \<Rightarrow>
             (case py_getitem (jc_noc c) pos of
                None \<Rightarrow> Inl IndexError
              | Some r \<Rightarrow>
                  (case py_int r of
                     Inl e \<Rightarrow> Inl e
                   | Inr n \<Rightarrow>
                       Inr \<lparr>be_chrom = jc_chrom c, be_start = gpos, be_end = gend,
                             be_goi = jc_goi c, be_cons = jc_cons c, be_gcons = gcons,
                             be_value = v, be_strand = jc_strand c, be_dist = dist,
                             be_raw = n\<rparr>)))"

text \<open>\<open>if border1 < arr[pos] and arr[pos] < border2: out[..].append(line)\<close>.\<close>

definition judge_select :: "judge_ctx \<Rightarrow> pyfloat list \<Rightarrow> int \<Rightarrow> py_error + bed_entry list" where
  "judge_select c arr pos =
     (case py_getitem arr pos of
        None \<Rightarrow> Inl IndexError
      | Some v \<Rightarrow>
          if flt (jc_border1 c) v \<and> flt v (jc_border2 c)
          then (case bed_line c arr pos of Inl e \<Rightarrow> Inl e | Inr b \<Rightarrow> Inr [b])
          else Inr [])"

text \<open>The body of \<open>for pos in range(len(uc))\<close>; the state is \<open>(out['u'], out['p'])\<close>.\<close>

definition judge_step ::
  "judge_ctx \<Rightarrow> pyfloat list \<Rightarrow> pyfloat list \<Rightarrow> bed_entry list \<times> bed_entry list \<Rightarrow> int
     \<Rightarrow> py_error + (bed_entry list \<times> bed_entry list)" where
  "judge_step c uc pc out pos =
     (if \<not> (jc_cs c \<le> pos \<and> pos < jc_ce c + 1)
      then (case judge_select c uc pos of
              Inl e \<Rightarrow> Inl e
            | Inr u \<Rightarrow>
                (case judge_select c pc pos of
                   Inl e \<Rightarrow> Inl e
                 | Inr p \<Rightarrow> Inr (fst out @ u, snd out @ p)))
      else Inr out)"

fun judge_loop ::
  "judge_ctx \<Rightarrow> pyfloat list \<Rightarrow> pyfloat list \<Rightarrow> bed_entry list \<times> bed_entry list \<Rightarrow> int list
     \<Rightarrow> py_error + (bed_entry list \<times> bed_entry list)" where
  "judge_loop c uc pc out [] = Inr out"
| "judge_loop c uc pc out (pos # rest) =
     (case judge_step c uc pc out pos of
        Inl e \<Rightarrow> Inl e
      | Inr out' \<Rightarrow> judge_loop c uc pc out' rest)"

text \<open>
  \<open>judge_diff\<close>. The fields of the file name (\<open>goi\<close>, \<open>chrom\<close>, \<open>strand\<close>, \<open>cons\<close> with
  its two numbers \<open>cs0-ce0\<close>, and the window \<open>ws0-we0\<close>) and the two borders of the
  string \<open>border\<close> are taken as parsed. \<open>pl_to_array\<close> is not among the sources, so the
  three arrays \<open>noc\<close>, \<open>uc\<close>, \<open>pc\<close> it returns are parameters. The result \<open>Inr\<close> is the
  pair of lists handed to \<open>savelists\<close>; on \<open>Inl\<close> the function's \<open>except Exception\<close>
  logs the error and nothing is written.
\<close>

definition judge_diff ::
  "string \<Rightarrow> string \<Rightarrow> string \<Rightarrow> string \<Rightarrow> int \<Rightarrow> int \<Rightarrow> int \<Rightarrow> int \<Rightarrow> int \<Rightarrow> int \<Rightarrow> int
     \<Rightarrow> pyfloat \<Rightarrow> pyfloat \<Rightarrow> pyfloat \<Rightarrow> pyfloat list \<Rightarrow> pyfloat list \<Rightarrow> pyfloat list
     \<Rightarrow> py_error + (bed_entry list \<times> bed_entry list)" where
  "judge_diff goi chrom strand cons cs0 ce0 ws0 we0 gs ge ulim cutoff border1 border2 noc uc pc =
     (let cs = cs0 - ws0 - 1;
          ce = ce0 - ws0 - 1;
          ws = (if strand \<noteq> ''-'' then ws0 + gs - 1 else ge - we0 - 1);
          we = (if strand \<noteq> ''-'' then we0 + gs else ge - ws0);
          c = \<lparr>jc_goi = goi, jc_chrom = chrom, jc_strand = strand, jc_cons = cons,
               jc_cs = cs, jc_ce = ce, jc_ws = ws, jc_we = we, jc_ulim = ulim,
               jc_border1 = border1, jc_border2 = border2, jc_noc = noc\<rparr>
      in case py_getitem noc ce of
           None \<Rightarrow> Inl IndexError
         | Some x \<Rightarrow>
             if flt cutoff (fabs x)
             then judge_loop c uc pc ([], []) (py_range 0 (int (length uc)))
             else Inr ([], []))"


text \<open>The context \<open>judge_diff\<close> builds from its arguments.\<close>

definition judge_ctx_of ::
  "string \<Rightarrow> string \<Rightarrow> string \<Rightarrow> string \<Rightarrow> int \<Rightarrow> int \<Rightarrow> int \<Rightarrow> int \<Rightarrow> int \<Rightarrow> int \<Rightarrow> int
     \<Rightarrow> pyfloat \<Rightarrow> pyfloat \<Rightarrow> pyfloat list \<Rightarrow> judge_ctx" where
  "judge_ctx_of goi chrom strand cons cs0 ce0 ws0 we0 gs ge ulim border1 border2 noc =
     \<lparr>jc_goi = goi, jc_chrom = chrom, jc_strand = strand, jc_cons = cons,
      jc_cs = cs0 - ws0 - 1, jc_ce = ce0 - ws0 - 1,
      jc_ws = (if strand \<noteq> ''-'' then ws0 + gs - 1 else ge - we0 - 1),
      jc_we = (if strand \<noteq> ''-'' then we0 + gs else ge - ws0), jc_ulim = ulim,
      jc_border1 = border1, jc_border2 = border2, jc_noc = noc\<rparr>"

text \<open>What a line says about the position it was made for.\<close>

definition bed_line_of :: "judge_ctx \<Rightarrow> pyfloat list \<Rightarrow> int \<Rightarrow> bed_entry \<Rightarrow> bool" where
  "bed_line_of c arr pos b =
     (\<not> (jc_cs c \<le> pos \<and> pos \<le> jc_ce c)
      \<and> py_getitem arr pos = Some (be_value b)
      \<and> flt (jc_border1 c) (be_value b) \<and> flt (be_value b) (jc_border2 c)
      \<and> (\<exists>r. py_getitem (jc_noc c) pos = Some r \<and> py_int r = Inr (be_raw b))
      \<and> be_dist b = (if jc_ce c < pos then - (pos - jc_ce c) else jc_cs c - pos)
      \<and> be_start b = (if jc_strand c \<noteq> ''-'' then pos + jc_ws c
                      else jc_we c - pos - jc_ulim c - 1))"

section \<open>More Python and numpy operations\<close>








text \<open>The truth value of an array: that of its element when it has one, an error when
  it has several; an empty array is false (with a deprecation warning).\<close>

fun np_truth :: "pyfloat list \<Rightarrow> py_error + bool" where
  "np_truth [] = Inr False"
| "np_truth [x] = Inr (x \<noteq> Fin 0)"
| "np_truth (x # y # ys) = Inl (ValueError Ambiguous_truth_value)"

section \<open>Region selection, bigwig variant (GenerateBigWig.py)\<close>

text \<open>An entry of a track is \<open>(chrom, start, end, value)\<close>; the tracks are \<open>raw\<close>, \<open>uc\<close>
  and \<open>pc\<close>, all of the one orientation of the gene.\<close>

type_synonym bw_entry = "string \<times> int \<times> int \<times> pyfloat"



text \<open>The local variables of \<open>create_bw_entries\<close> when its loop starts.\<close>

record bw_ctx =
  bc_fname :: string
  bc_chrom :: string
  bc_gstrand :: string
  bc_ws :: int
  bc_we :: int
  bc_ulim :: int
  bc_border :: pyfloat
  bc_noc :: "pyfloat list"
  bc_oc :: "pyfloat list option"



text \<open>\<open>if oc and tag in fname and border < abs(oc[pos]) and not np.isnan(oc[pos])\<close>, with
  the entry it appends.\<close>

definition bw_select_oc :: "bw_ctx \<Rightarrow> string \<Rightarrow> int \<Rightarrow> int \<Rightarrow> py_error + bw_entry list" where
  "bw_select_oc c tag pos gpos =
     (case bc_oc c of
        None \<Rightarrow> Inr []
      | Some oc \<Rightarrow>
          (case np_truth oc of
             Inl e \<Rightarrow> Inl e
           | Inr t \<Rightarrow>
               if t \<and> sublist tag (bc_fname c)
               then (case py_getitem oc pos of
                       None \<Rightarrow> Inl IndexError
                     | Some v \<Rightarrow>
                         Inr (if flt (bc_border c) (fabs v) \<and> \<not> isnan v
                              then [(bc_chrom c, gpos, gpos + 1, v)] else []))
               else Inr []))"






section \<open>Whole-sequence fold results (RNAtweaks.py)\<close>

text \<open>
  Energies and probabilities are Python floats. In this section they are written as
  reals and their arithmetic (\<open>+\<close>, \<open>-\<close>, \<open>*\<close>, \<open>math.log\<close>) as the exact operation:
  rounding is not modelled. A float literal of the source denotes the binary64 number
  nearest to the decimal written; for a decimal in \<open>[1/2, 1)\<close> the binary64 numbers
  are the multiples of \<open>2^-53\<close>.
\<close>

definition binary64_half_to_one :: "real \<Rightarrow> real" where
  "binary64_half_to_one x = real_of_int (round (x * 2 ^ 53)) / 2 ^ 53"

text \<open>\<open>_calc_nrg(bpp)\<close>, with its constant \<open>k_t = 0.61632077549999997\<close>.\<close>

definition k_t :: real where
  "k_t = binary64_half_to_one 0.61632077549999997"

definition calc_nrg :: "real \<Rightarrow> real" where
  "calc_nrg bpp = (let nrg = 0 in if bpp > 0 then - 1 * k_t * ln bpp else nrg)"

text \<open>
  What ViennaRNA returns for a fold compound: \<open>_calc_gibbs(fc)\<close> (the free energy
  \<open>fc.pf()[1]\<close>, or \<open>None\<close> when the call raised and the error was logged), the matrix
  \<open>fc.bpp()\<close> and \<open>fc.length\<close>.
\<close>

record engine_fc =
  ef_gibbs :: "real option"
  ef_bpp :: "real list list"
  ef_length :: int

text \<open>\<open>matrix.index(item)\<close>: the first row equal to \<open>item\<close>.\<close>

fun index_of :: "'a list \<Rightarrow> 'a \<Rightarrow> nat" where
  "index_of [] y = 0"
| "index_of (x # xs) y = (if x = y then 0 else Suc (index_of xs y))"

text \<open>
  \<open>_get_bppm(matrix, start, end)\<close>. An entry \<open>"row\\tcolumn\\tprobability"\<close> is kept as
  its three fields. A comparison with \<open>None\<close> and a subscript out of range raise inside
  the function's \<open>try\<close>, which logs the error and returns \<open>None\<close>.
\<close>

fun get_bppm_row :: "nat \<Rightarrow> real list \<Rightarrow> int list \<Rightarrow> (nat \<times> int \<times> real) list option" where
  "get_bppm_row k item [] = Some []"
| "get_bppm_row k item (i # rest) =
     (case py_getitem item i of
        None \<Rightarrow> None
      | Some p \<Rightarrow>
          (case get_bppm_row k item rest of
             None \<Rightarrow> None
           | Some es \<Rightarrow> Some (if p > 0 then (k, i, p) # es else es)))"

fun get_bppm_rows ::
  "real list list \<Rightarrow> real list list \<Rightarrow> int list \<Rightarrow> (nat \<times> int \<times> real) list option" where
  "get_bppm_rows matrix [] cols = Some []"
| "get_bppm_rows matrix (item # items) cols =
     (case get_bppm_row (index_of matrix item) item cols of
        None \<Rightarrow> None
      | Some es \<Rightarrow>
          (case get_bppm_rows matrix items cols of
             None \<Rightarrow> None
           | Some fs \<Rightarrow> Some (es @ fs)))"

definition get_bppm ::
  "real list list \<Rightarrow> int option \<Rightarrow> int option \<Rightarrow> (nat \<times> int \<times> real) list option" where
  "get_bppm matrix start en =
     (case start of
        None \<Rightarrow> None
      | Some s \<Rightarrow>
          if s < 0 then None
          else (case en of
                  None \<Rightarrow> None
                | Some e \<Rightarrow>
                    if e > int (length matrix) then None
                    else get_bppm_rows matrix matrix (py_range s (e + 1))))"

text \<open>\<open>_calc_bpp(bppm)\<close>: the sum of the probabilities of the entries; \<open>0.0\<close> when
  \<open>_get_bppm\<close> returned \<open>None\<close> (the loop over the array raises and the error is
  logged).\<close>

definition calc_bpp :: "(nat \<times> int \<times> real) list option \<Rightarrow> real" where
  "calc_bpp bppm =
     (case bppm of
        None \<Rightarrow> 0
      | Some es \<Rightarrow> foldl (\<lambda>bpp entry. bpp + snd (snd entry)) 0 es)"

text \<open>
  A \<open>FoldOutput\<close> is a dictionary from the name of a condition to the dictionary of its
  values, and the key \<open>anno\<close>. The dictionary of a condition always has the seven keys
  below (\<open>__init__\<close> and \<open>from_rnamediator_fold_compound\<close> set them all), so it is a
  record; a field is \<open>None\<close> where Python holds \<open>None\<close>.
\<close>

record fold_entry =
  fe_gibbs :: "real option"
  fe_constraint :: "string option"
  fe_bppm :: "(nat \<times> int \<times> real) list option"
  fe_bpp :: "real option"
  fe_nrg :: "real option"
  fe_ddg :: "real option"
  fe_dnrg :: "real option"

record fold_output =
  fo_anno :: "string option"
  fo_cond :: "string \<rightharpoonup> fold_entry"

definition valid_conditions :: "string list" where
  "valid_conditions =
     [''unconstrained'', ''constraint'', ''pairedconstraint'', ''constraint_unpaired'',
      ''constraint_paired'', ''secondconstraint_unpaired'', ''secondconstraint_paired'',
      ''bothconstraint_unpaired'', ''bothconstraint_paired'']"

text \<open>\<open>FoldOutput(condition, anno, gibbs)\<close>: the constructor stores \<open>gibbs\<close> and sets the
  other values to \<open>None\<close> (the matrix to an empty array).\<close>

definition fold_output_init :: "string \<Rightarrow> string option \<Rightarrow> real option \<Rightarrow> py_error + fold_output" where
  "fold_output_init condition anno gibbs =
     (if condition \<notin> set valid_conditions then Inl AssertionError
      else Inr \<lparr>fo_anno = anno,
                fo_cond = Map.empty(condition \<mapsto>
                  \<lparr>fe_gibbs = gibbs, fe_constraint = None, fe_bppm = Some [],
                   fe_bpp = None, fe_nrg = None, fe_ddg = None, fe_dnrg = None\<rparr>)\<rparr>)"

text \<open>
  \<open>from_rnamediator_fold_compound(self, fc, condition, constr, start, end)\<close>. A
  subtraction with \<open>None\<close> raises \<open>TypeError\<close>. The default \<open>0\<close> of the two deltas is
  Python's integer zero.
\<close>

definition from_rnamediator_fold_compound ::
  "fold_output \<Rightarrow> engine_fc \<Rightarrow> string \<Rightarrow> string option \<Rightarrow> int option \<Rightarrow> int option
     \<Rightarrow> py_error + fold_output" where
  "from_rnamediator_fold_compound self fc condition constr start0 end0 =
     (if condition \<notin> set valid_conditions then Inl AssertionError
      else
        (let entry0 = (case fo_cond self condition of
                         None \<Rightarrow> \<lparr>fe_gibbs = None, fe_constraint = None, fe_bppm = None,
                                   fe_bpp = None, fe_nrg = None, fe_ddg = None, fe_dnrg = None\<rparr>
                       | Some e \<Rightarrow> e);
             gibbs = ef_gibbs fc;
             start = (if \<not> py_truthy start0 \<and> py_truthy end0 then Some 0 else start0);
             en = (if \<not> py_truthy start0 \<and> py_truthy end0 then Some (ef_length fc) else end0);
             bppm = get_bppm (ef_bpp fc) start en;
             bpp = calc_bpp bppm;
             nrg = calc_nrg bpp;
             entry1 = entry0\<lparr>fe_constraint := constr, fe_gibbs := gibbs, fe_bppm := bppm,
                             fe_bpp := Some bpp, fe_nrg := Some nrg\<rparr>;
             cond1 = (fo_cond self)(condition \<mapsto> entry1)
         in case cond1 ''unconstrained'' of
              None \<Rightarrow>
                Inr (self\<lparr>fo_cond := cond1(condition \<mapsto>
                       entry1\<lparr>fe_ddg := Some 0, fe_dnrg := Some 0\<rparr>)\<rparr>)
            | Some u \<Rightarrow>
                if condition \<noteq> ''unconstrained''
                then (case fe_gibbs u of
                        None \<Rightarrow> Inl TypeError
                      | Some g0 \<Rightarrow>
                          (case gibbs of
                             None \<Rightarrow> Inl TypeError
                           | Some g \<Rightarrow>
                               (case fe_nrg u of
                                  None \<Rightarrow> Inl TypeError
                                | Some n0 \<Rightarrow>
                                    Inr (self\<lparr>fo_cond := cond1(condition \<mapsto>
                                           entry1\<lparr>fe_ddg := Some (g0 - g),
                                                   fe_dnrg := Some (n0 - nrg)\<rparr>)\<rparr>))))
                else Inr (self\<lparr>fo_cond := cond1(condition \<mapsto>
                            entry1\<lparr>fe_ddg := Some 0, fe_dnrg := Some 0\<rparr>)\<rparr>)))"


section \<open>Unpaired-probability profiles (PLFoldOutput in RNAtweaks.py)\<close>
















section \<open>Properties of the folding wrappers\<close>

subsection \<open>Auxiliary facts\<close>

lemma length_py_replace_same:
  "length old = length new \<Longrightarrow> length (py_replace old new s) = length s"
proof (induction old new s rule: py_replace.induct)
  case (1 old new)
  then show ?case by simp
next
  case (2 old new c cs)
  show ?case
  proof (cases "old \<noteq> [] \<and> prefix old (c # cs)")
    case True
    then have le: "length old \<le> length (c # cs)" by (auto dest: prefix_length_le)
    from True 2 have "length (py_replace old new (drop (length old) (c # cs))) = length (drop (length old) (c # cs))"
      by simp
    with True le 2(3) show ?thesis by (simp del: drop_Suc_Cons length_drop add: length_drop)
  next
    case False
    with 2 show ?thesis by auto
  qed
qed

lemma length_py_upper: "length (py_upper s) = length s"
  by (simp add: py_upper_def)

lemma length_normalised: "length (py_replace ''T'' ''U'' (py_upper s)) = length s"
  by (simp add: length_py_replace_same length_py_upper)

lemma fc_md_fc_add: "fc_md (fc_add fc cs) = fc_md fc"
  by (simp add: fc_add_def)

lemma fc_md_constrain:
  "fc_md (constrain_paired fc s e fs fe) = fc_md fc"
  "fc_md (constrain_unpaired fc s e fs fe) = fc_md fc"
  "fc_md (constrain_unpaired_soft fc s e v fs fe) = fc_md fc"
  by (simp_all add: constrain_paired_def constrain_unpaired_def constrain_unpaired_soft_def
      fc_md_fc_add Let_def)

lemma api_step_md:
  "api_constraint_step constype consval md seqlen st entry = Inr st' \<Longrightarrow>
   fc_md (fst st) = md \<Longrightarrow> fc_md (fst st') = md"
  by (auto simp: api_constraint_step_def Let_def fc_md_constrain new_fold_compound_def
      split: sum.splits if_splits)

lemma api_loop_md:
  "api_constraint_loop constype consval md seqlen st entries = Inr st' \<Longrightarrow>
   fc_md (fst st) = md \<Longrightarrow> fc_md (fst st') = md"
proof (induction entries arbitrary: st)
  case Nil
  then show ?case by simp
next
  case (Cons entry rest)
  then show ?case
    by (auto split: sum.splits dest: api_step_md)
qed



lemma check_constraint_cases:
  "(\<exists>e. check_constraint n start en = Inl e) \<or> check_constraint n start en = Inr ()"
  by (auto simp: check_constraint_def)









lemma api_rnaplfold_Some:
  "\<exists>md st0 w. api_rnaplfold sequence window spn region temp constype consval (Some entries) =
     (case api_constraint_loop constype consval md (int (length sequence)) st0 entries of
        Inl e \<Rightarrow> Inl e
      | Inr st \<Rightarrow> Inr \<lparr>fr_fc = fst st, fr_region = region, fr_warnings = w\<rparr>)"
  unfolding api_rnaplfold_def Let_def option.case length_normalised by blast








lemma api_rnaplfold_window:
  assumes "api_rnaplfold sequence window spn region temp constype consval constraint = Inr r"
  shows "window_size (fc_md (fr_fc r)) =
           (if window > int (length sequence) then int (length sequence) else window)"
    and "max_bp_span (fc_md (fr_fc r)) =
           (if spn > window_size (fc_md (fr_fc r)) then window_size (fc_md (fr_fc r)) else spn)"
    and "fr_warnings r =
           (if window > int (length sequence)
            then [Window_larger_than_sequence window (int (length sequence))] else []) @
           (if spn > window_size (fc_md (fr_fc r))
            then [Span_larger_than_window spn (window_size (fc_md (fr_fc r)))] else [])"
proof -
  let ?n = "int (length (py_replace ''T'' ''U'' (py_upper sequence)))"
  have n: "?n = int (length sequence)" by (simp add: length_normalised)
  let ?w = "if window > ?n then ?n else window"
  let ?s = "if spn > ?w then ?w else spn"
  let ?md = "\<lparr>max_bp_span = ?s, window_size = ?w, temperature = temp\<rparr>"
  have md: "fc_md (fr_fc r) = ?md"
  proof (cases constraint)
    case None
    with assms show ?thesis
      by (auto simp: api_rnaplfold_def Let_def new_fold_compound_def)
  next
    case (Some entries)
    with assms obtain st where
      l: "api_constraint_loop constype consval ?md ?n
            (new_fold_compound (py_replace ''T'' ''U'' (py_upper sequence)) ?md,
             Some (py_replace ''T'' ''U'' (py_upper sequence))) entries = Inr st"
      and r: "fr_fc r = fst st"
      unfolding api_rnaplfold_def Let_def by (auto split: sum.splits)
    from api_loop_md[OF l] r show ?thesis by (simp add: new_fold_compound_def)
  qed
  show "window_size (fc_md (fr_fc r)) =
           (if window > int (length sequence) then int (length sequence) else window)"
    using md n by simp
  show "max_bp_span (fc_md (fr_fc r)) =
           (if spn > window_size (fc_md (fr_fc r)) then window_size (fc_md (fr_fc r)) else spn)"
    using md n by simp
  have "fr_warnings r =
          (if window > ?n then [Window_larger_than_sequence window ?n] else []) @
          (if spn > ?w then [Span_larger_than_window spn ?w] else [])"
    using assms unfolding api_rnaplfold_def Let_def by (auto split: option.splits sum.splits)
  then show "fr_warnings r =
           (if window > int (length sequence)
            then [Window_larger_than_sequence window (int (length sequence))] else []) @
           (if spn > window_size (fc_md (fr_fc r))
            then [Span_larger_than_window spn (window_size (fc_md (fr_fc r)))] else [])"
    using md n by simp
qed

lemma cmd_rnaplfold_window:
  assumes "cmd_rnaplfold sequence window spn region temp constype consval constraint = Inr c"
  shows "cmd_window c =
           (if window > int (length (cmd_stdin c)) then int (length (cmd_stdin c)) else window)
       \<and> cmd_span c = (if spn > cmd_window c then cmd_window c else spn)
       \<and> cmd_warnings c =
           (if window > int (length (cmd_stdin c))
            then [Window_larger_than_sequence window (int (length (cmd_stdin c)))] else []) @
           (if spn > cmd_window c then [Span_larger_than_window spn (cmd_window c)] else [])"
  using assms unfolding cmd_rnaplfold_def Let_def
  by (auto split: sum.splits option.splits)

lemma api_rnaplfold_None:
  "\<exists>r. api_rnaplfold sequence window spn region temp constype consval None = Inr r"
  by (simp add: api_rnaplfold_def Let_def)

lemma cmd_rnaplfold_None:
  "\<exists>c. cmd_rnaplfold sequence window spn region temp constype consval None = Inr c"
  by (simp add: cmd_rnaplfold_def Let_def)

lemma api_step_error_indep:
  "api_constraint_step constype consval md seqlen st entry = Inl e \<Longrightarrow>
   api_constraint_step constype consval md' seqlen st' entry = Inl e"
  by (auto simp: api_constraint_step_def Let_def split: sum.splits if_splits)

lemma api_step_ok_indep:
  "api_constraint_step constype consval md seqlen st entry = Inr st1 \<Longrightarrow>
   \<exists>st2. api_constraint_step constype consval md' seqlen st' entry = Inr st2"
  by (auto simp: api_constraint_step_def Let_def split: sum.splits if_splits)

lemma api_loop_error_indep:
  "api_constraint_loop constype consval md seqlen st entries = Inl e \<Longrightarrow>
   api_constraint_loop constype consval md' seqlen st' entries = Inl e"
proof (induction entries arbitrary: st st')
  case Nil
  then show ?case by simp
next
  case (Cons x rest)
  show ?case
  proof (cases "api_constraint_step constype consval md seqlen st x")
    case (Inl e')
    with Cons.prems have "e' = e" by simp
    with Inl api_step_error_indep[of constype consval md seqlen st x e md' st']
    show ?thesis by simp
  next
    case (Inr st1)
    from api_step_ok_indep[OF Inr, of md' st'] obtain st2 where
      s2: "api_constraint_step constype consval md' seqlen st' x = Inr st2" by blast
    from Inr Cons.prems have "api_constraint_loop constype consval md seqlen st1 rest = Inl e"
      by simp
    from Cons.IH[OF this, of st2] s2 show ?thesis by simp
  qed
qed

lemma api_rnaplfold_error_indep:
  assumes "api_rnaplfold sequence window spn region temp constype consval constraint = Inl e"
  shows "api_rnaplfold sequence window' spn' region temp constype consval constraint = Inl e"
proof (cases constraint)
  case None
  with assms show ?thesis by (simp add: api_rnaplfold_def Let_def)
next
  case (Some entries)
  obtain md st0 w where
    eq: "api_rnaplfold sequence window spn region temp constype consval (Some entries) =
     (case api_constraint_loop constype consval md (int (length sequence)) st0 entries of
        Inl e \<Rightarrow> Inl e
      | Inr st \<Rightarrow> Inr \<lparr>fr_fc = fst st, fr_region = region, fr_warnings = w\<rparr>)"
    using api_rnaplfold_Some by blast
  obtain md' st0' w' where
    eq': "api_rnaplfold sequence window' spn' region temp constype consval (Some entries) =
     (case api_constraint_loop constype consval md' (int (length sequence)) st0' entries of
        Inl e \<Rightarrow> Inl e
      | Inr st \<Rightarrow> Inr \<lparr>fr_fc = fst st, fr_region = region, fr_warnings = w'\<rparr>)"
    using api_rnaplfold_Some by blast
  from eq assms Some
  have "api_constraint_loop constype consval md (int (length sequence)) st0 entries = Inl e"
    by (auto split: sum.splits)
  from api_loop_error_indep[OF this, of md' st0'] eq' Some show ?thesis by simp
qed

lemma cmd_rnaplfold_error_indep:
  assumes "cmd_rnaplfold sequence window spn region temp constype consval constraint = Inl e"
  shows "cmd_rnaplfold sequence window' spn' region temp constype consval constraint = Inl e"
  using assms unfolding cmd_rnaplfold_def Let_def by (auto split: sum.splits option.splits)





lemma set_py_range: "set (py_range a b) = {x. a \<le> x \<and> x < b}"
  by (auto simp: py_range_def)

subsection \<open>Window and span\<close>

text \<open>
  Claim C4. In both windowed wrappers a window larger than the sequence is replaced by the
  sequence length and a span larger than the (possibly replaced) window by that window;
  each replacement logs a warning and raises nothing. For \<open>api_rnaplfold\<close> the model
  details of the fold compound handed to ViennaRNA carry these values, whatever the
  constraints did in between; for \<open>cmd_rnaplfold\<close> the options \<open>-W\<close> and \<open>-L\<close> carry
  them, the length being that of the sequence written to RNAplfold. Without constraints
  both wrappers reach the engine for every window and span, and with constraints an error
  of the call never depends on the window or the span.
\<close>

theorem window_and_span_are_shrunk:
  "(api_rnaplfold sequence window spn region temp constype consval constraint = Inr r \<longrightarrow>
      window_size (fc_md (fr_fc r)) =
        (if window > int (length sequence) then int (length sequence) else window)
    \<and> max_bp_span (fc_md (fr_fc r)) =
        (if spn > window_size (fc_md (fr_fc r)) then window_size (fc_md (fr_fc r)) else spn)
    \<and> fr_warnings r =
        (if window > int (length sequence)
         then [Window_larger_than_sequence window (int (length sequence))] else []) @
        (if spn > window_size (fc_md (fr_fc r))
         then [Span_larger_than_window spn (window_size (fc_md (fr_fc r)))] else []))
   \<and> (cmd_rnaplfold sequence window spn region temp constype consval constraint = Inr c \<longrightarrow>
      cmd_window c =
        (if window > int (length (cmd_stdin c)) then int (length (cmd_stdin c)) else window)
    \<and> cmd_span c = (if spn > cmd_window c then cmd_window c else spn)
    \<and> cmd_warnings c =
        (if window > int (length (cmd_stdin c))
         then [Window_larger_than_sequence window (int (length (cmd_stdin c)))] else []) @
        (if spn > cmd_window c then [Span_larger_than_window spn (cmd_window c)] else []))
   \<and> (\<exists>r0. api_rnaplfold sequence window spn region temp constype consval None = Inr r0)
   \<and> (\<exists>c0. cmd_rnaplfold sequence window spn region temp constype consval None = Inr c0)
   \<and> ((api_rnaplfold sequence window spn region temp constype consval constraint = Inl e) =
      (api_rnaplfold sequence window' spn' region temp constype consval constraint = Inl e))
   \<and> ((cmd_rnaplfold sequence window spn region temp constype consval constraint = Inl e) =
      (cmd_rnaplfold sequence window' spn' region temp constype consval constraint = Inl e))"
proof (intro conjI impI)
  assume a: "api_rnaplfold sequence window spn region temp constype consval constraint = Inr r"
  show "window_size (fc_md (fr_fc r)) =
        (if window > int (length sequence) then int (length sequence) else window)"
    by (rule api_rnaplfold_window(1)[OF a])
  show "max_bp_span (fc_md (fr_fc r)) =
        (if spn > window_size (fc_md (fr_fc r)) then window_size (fc_md (fr_fc r)) else spn)"
    by (rule api_rnaplfold_window(2)[OF a])
  show "fr_warnings r =
        (if window > int (length sequence)
         then [Window_larger_than_sequence window (int (length sequence))] else []) @
        (if spn > window_size (fc_md (fr_fc r))
         then [Span_larger_than_window spn (window_size (fc_md (fr_fc r)))] else [])"
    by (rule api_rnaplfold_window(3)[OF a])
next
  assume c: "cmd_rnaplfold sequence window spn region temp constype consval constraint = Inr c"
  note w = cmd_rnaplfold_window[OF c]
  show "cmd_window c =
        (if window > int (length (cmd_stdin c)) then int (length (cmd_stdin c)) else window)"
    using w by blast
  show "cmd_span c = (if spn > cmd_window c then cmd_window c else spn)"
    using w by blast
  show "cmd_warnings c =
        (if window > int (length (cmd_stdin c))
         then [Window_larger_than_sequence window (int (length (cmd_stdin c)))] else []) @
        (if spn > cmd_window c then [Span_larger_than_window spn (cmd_window c)] else [])"
    using w by blast
next
  show "\<exists>r0. api_rnaplfold sequence window spn region temp constype consval None = Inr r0"
    by (rule api_rnaplfold_None)
  show "\<exists>c0. cmd_rnaplfold sequence window spn region temp constype consval None = Inr c0"
    by (rule cmd_rnaplfold_None)
  show "(api_rnaplfold sequence window spn region temp constype consval constraint = Inl e) =
      (api_rnaplfold sequence window' spn' region temp constype consval constraint = Inl e)"
    using api_rnaplfold_error_indep by blast
  show "(cmd_rnaplfold sequence window spn region temp constype consval constraint = Inl e) =
      (cmd_rnaplfold sequence window' spn' region temp constype consval constraint = Inl e)"
    using cmd_rnaplfold_error_indep by blast
qed

text \<open>An instance: a window of 10 and a span of 20 on a sequence of length 4.\<close>

theorem window_and_span_are_shrunk_witness:
  "api_rnaplfold ''ACGT'' 10 20 30 37 ''hard'' '''' (Some [(''paired'', 1, 3)]) =
     Inr \<lparr>fr_fc = \<lparr>fc_sequence = ''ACGU'',
                     fc_md = \<lparr>max_bp_span = 4, window_size = 4, temperature = 37\<rparr>,
                     fc_calls = [Hc_add_bp_nonspecific 2 0, Hc_add_bp_nonspecific 3 0]\<rparr>,
           fr_region = 30,
           fr_warnings = [Window_larger_than_sequence 10 4, Span_larger_than_window 20 4]\<rparr>
   \<and> cmd_rnaplfold ''ACGT'' 10 20 30 37 ''hard'' '''' (Some [(''paired'', 1, 3)]) =
     Inr \<lparr>cmd_window = 4, cmd_span = 4, cmd_region = 30, cmd_temperature = 37,
           cmd_constraint_file = [(''F'', 2, 0, 2)], cmd_stdin = ''ACGT'',
           cmd_warnings = [Window_larger_than_sequence 10 4, Span_larger_than_window 20 4]\<rparr>
   \<and> (if (10::int) > int (length ''ACGT'') then int (length ''ACGT'') else 10) = 4"
proof -
  let ?R = "\<lparr>fr_fc = \<lparr>fc_sequence = ''ACGU'',
                     fc_md = \<lparr>max_bp_span = 4, window_size = 4, temperature = 37\<rparr>,
                     fc_calls = [Hc_add_bp_nonspecific 2 0, Hc_add_bp_nonspecific 3 0]\<rparr>,
           fr_region = 30,
           fr_warnings = [Window_larger_than_sequence 10 4, Span_larger_than_window 20 4]\<rparr>"
  let ?C = "\<lparr>cmd_window = 4, cmd_span = 4, cmd_region = 30, cmd_temperature = 37,
           cmd_constraint_file = [(''F'', 2, 0, 2)], cmd_stdin = ''ACGT'',
           cmd_warnings = [Window_larger_than_sequence 10 4, Span_larger_than_window 20 4]\<rparr>"
  have h1: "api_rnaplfold ''ACGT'' 10 20 30 37 ''hard'' '''' (Some [(''paired'', 1, 3)]) = Inr ?R"
    by code_simp
  have h2: "cmd_rnaplfold ''ACGT'' 10 20 30 37 ''hard'' '''' (Some [(''paired'', 1, 3)]) = Inr ?C"
    by code_simp
  show ?thesis
    using h1 h2
      window_and_span_are_shrunk[of "''ACGT''" 10 20 30 37 "''hard''" "''''"
        "Some [(''paired'', 1, 3)]" ?R ?C NotImplementedError 3 2]
    by simp
qed

subsection \<open>Constraint bounds\<close>



subsection \<open>Soft constraints of kind paired\<close>

text \<open>
  Claim C6. A soft constraint of kind paired is to raise \<open>NotImplementedError\<close>. The
  wrappers do so only in part. In \<open>api_rnaplfold\<close> the test
  \<open>mode == "paired" or mode == "p" and constype == "hard"\<close> is true for the mode
  \<open>"paired"\<close> whatever the constraint type is, so a soft constraint written
  \<open>"paired"\<close> is applied as a hard one and only the spelling \<open>"p"\<close> raises. In
  \<open>cmd_rnaplfold\<close> the modes \<open>"paired"\<close> and \<open>"p"\<close> are taken by the first branch, and
  the branch that raises cannot be reached. The theorem evaluates both wrappers on such
  requests.
\<close>

theorem soft_paired_runs_as_hard:
  "api_rnaplfold ''ACGUACGU'' 8 8 30 37 ''soft'' ''1.5'' (Some [(''paired'', 2, 5)]) =
     Inr \<lparr>fr_fc = \<lparr>fc_sequence = ''ACGUACGU'',
                     fc_md = \<lparr>max_bp_span = 8, window_size = 8, temperature = 37\<rparr>,
                     fc_calls = [Hc_add_bp_nonspecific 3 0, Hc_add_bp_nonspecific 4 0,
                                 Hc_add_bp_nonspecific 5 0]\<rparr>,
           fr_region = 30, fr_warnings = []\<rparr>
   \<and> api_rnaplfold ''ACGUACGU'' 8 8 30 37 ''soft'' ''1.5'' (Some [(''paired'', 2, 5)]) =
     api_rnaplfold ''ACGUACGU'' 8 8 30 37 ''hard'' ''1.5'' (Some [(''paired'', 2, 5)])
   \<and> api_rnaplfold ''ACGUACGU'' 8 8 30 37 ''soft'' ''1.5'' (Some [(''p'', 2, 5)]) =
     Inl NotImplementedError
   \<and> cmd_rnaplfold ''ACGUACGU'' 8 8 30 37 ''soft'' ''1.5'' (Some [(''p'', 2, 5)]) =
     Inr \<lparr>cmd_window = 8, cmd_span = 8, cmd_region = 30, cmd_temperature = 37,
           cmd_constraint_file = [(''F'', 3, 0, 3)], cmd_stdin = ''ACGUACGU'',
           cmd_warnings = []\<rparr>"
  by code_simp

subsection \<open>Mutation\<close>

text \<open>
  Claim C7. A mutate constraint \<open>(start, end)\<close> is to put \<open>replacement[i - start]\<close> at
  every index of \<open>[start, end)\<close>. Both wrappers call \<open>_mutate(sequence, start, end - 1,
  value)\<close>, and \<open>_mutate\<close> runs over \<open>range(start, end)\<close> of its own arguments, so the
  last index \<open>end - 1\<close> of the region keeps the character of the input. The theorem
  evaluates both wrappers on \<open>AAAA\<close> with the region \<open>[1, 3)\<close> and the replacement
  \<open>CC\<close>: the sequence folded is \<open>ACAA\<close>.
\<close>

theorem mutate_misses_last_index:
  "api_rnaplfold ''AAAA'' 4 4 30 37 ''mutate'' ''CC'' (Some [(''mutate'', 1, 3)]) =
     Inr \<lparr>fr_fc = \<lparr>fc_sequence = ''ACAA'',
                     fc_md = \<lparr>max_bp_span = 4, window_size = 4, temperature = 37\<rparr>,
                     fc_calls = []\<rparr>,
           fr_region = 30, fr_warnings = []\<rparr>
   \<and> ''ACAA'' ! 2 \<noteq> ''CC'' ! (2 - 1)
   \<and> cmd_rnaplfold ''AAAA'' 4 4 30 37 ''mutate'' ''CC'' (Some [(''mutate'', 1, 3)]) =
     Inr \<lparr>cmd_window = 4, cmd_span = 4, cmd_region = 30, cmd_temperature = 37,
           cmd_constraint_file = [], cmd_stdin = ''ACAA'', cmd_warnings = []\<rparr>"
  by code_simp




section \<open>Properties of region selection\<close>

subsection \<open>Auxiliary facts\<close>




lemma py_getitem_nonneg:
  "0 \<le> i \<Longrightarrow> py_getitem xs i = Some v \<longleftrightarrow> (nat i < length xs \<and> v = xs ! nat i)"
  by (auto simp: py_getitem_def py_norm_index_def Let_def)


lemma bed_line_fields:
  "bed_line c arr pos = Inr b \<Longrightarrow>
   py_getitem arr pos = Some (be_value b)
   \<and> (\<exists>r. py_getitem (jc_noc c) pos = Some r \<and> py_int r = Inr (be_raw b))
   \<and> be_dist b = (if jc_ce c < pos then - (pos - jc_ce c) else jc_cs c - pos)
   \<and> be_start b = (if jc_strand c \<noteq> ''-'' then pos + jc_ws c
                   else jc_we c - pos - jc_ulim c - 1)"
  by (auto simp: bed_line_def Let_def split: option.splits sum.splits)

lemma judge_select_entries:
  "judge_select c arr pos = Inr bs \<Longrightarrow> b \<in> set bs \<Longrightarrow> \<not> (jc_cs c \<le> pos \<and> pos \<le> jc_ce c) \<Longrightarrow>
   bed_line_of c arr pos b"
  unfolding judge_select_def bed_line_of_def
  by (auto split: option.splits sum.splits if_splits dest!: bed_line_fields)

lemma judge_step_entries:
  assumes "judge_step c uc pc out pos = Inr out'"
  shows "(\<forall>b \<in> set (fst out'). b \<in> set (fst out) \<or> bed_line_of c uc pos b)
       \<and> (\<forall>b \<in> set (snd out'). b \<in> set (snd out) \<or> bed_line_of c pc pos b)"
proof (cases "\<not> (jc_cs c \<le> pos \<and> pos < jc_ce c + 1)")
  case False
  with assms have "out' = out" by (simp add: judge_step_def)
  then show ?thesis by simp
next
  case True
  then have out: "\<not> (jc_cs c \<le> pos \<and> pos \<le> jc_ce c)" by auto
  from True assms obtain u p where
    u: "judge_select c uc pos = Inr u" and p: "judge_select c pc pos = Inr p"
    and o: "out' = (fst out @ u, snd out @ p)"
    by (auto simp: judge_step_def split: sum.splits)
  show ?thesis
    using o judge_select_entries[OF u _ out] judge_select_entries[OF p _ out] by auto
qed

lemma judge_loop_entries:
  "judge_loop c uc pc out poss = Inr out' \<Longrightarrow>
   (\<forall>b \<in> set (fst out'). b \<in> set (fst out) \<or> (\<exists>pos \<in> set poss. bed_line_of c uc pos b))
   \<and> (\<forall>b \<in> set (snd out'). b \<in> set (snd out) \<or> (\<exists>pos \<in> set poss. bed_line_of c pc pos b))"
proof (induction poss arbitrary: out)
  case Nil
  then show ?case by simp
next
  case (Cons pos rest)
  from Cons.prems obtain out1 where
    s: "judge_step c uc pc out pos = Inr out1" and l: "judge_loop c uc pc out1 rest = Inr out'"
    by (auto split: sum.splits)
  note st = judge_step_entries[OF s]
  note ih = Cons.IH[OF l]
  show ?case
  proof (intro conjI ballI)
    fix b assume "b \<in> set (fst out')"
    with ih have "b \<in> set (fst out1) \<or> (\<exists>pos \<in> set rest. bed_line_of c uc pos b)" by blast
    with st show "b \<in> set (fst out) \<or> (\<exists>p \<in> set (pos # rest). bed_line_of c uc p b)"
      by auto
  next
    fix b assume "b \<in> set (snd out')"
    with ih have "b \<in> set (snd out1) \<or> (\<exists>pos \<in> set rest. bed_line_of c pc pos b)" by blast
    with st show "b \<in> set (snd out) \<or> (\<exists>p \<in> set (pos # rest). bed_line_of c pc p b)"
      by auto
  qed
qed


lemma judge_diff_entries:
  assumes "judge_diff goi chrom strand cons cs0 ce0 ws0 we0 gs ge ulim cutoff border1 border2
             noc uc pc = Inr (us, ps)"
  shows "(\<forall>b \<in> set us. \<exists>pos. 0 \<le> pos \<and> pos < int (length uc) \<and>
            bed_line_of (judge_ctx_of goi chrom strand cons cs0 ce0 ws0 we0 gs ge ulim
                           border1 border2 noc) uc pos b)
       \<and> (\<forall>b \<in> set ps. \<exists>pos. 0 \<le> pos \<and> pos < int (length uc) \<and>
            bed_line_of (judge_ctx_of goi chrom strand cons cs0 ce0 ws0 we0 gs ge ulim
                           border1 border2 noc) pc pos b)"
proof -
  let ?c = "judge_ctx_of goi chrom strand cons cs0 ce0 ws0 we0 gs ge ulim border1 border2 noc"
  from assms have
    "judge_loop ?c uc pc ([], []) (py_range 0 (int (length uc))) = Inr (us, ps) \<or> (us, ps) = ([], [])"
    unfolding judge_diff_def judge_ctx_of_def Let_def
    by (auto split: option.splits if_splits)
  then show ?thesis
  proof
    assume "judge_loop ?c uc pc ([], []) (py_range 0 (int (length uc))) = Inr (us, ps)"
    from judge_loop_entries[OF this] show ?thesis
      unfolding set_py_range by fastforce
  next
    assume "(us, ps) = ([], [])"
    then show ?thesis by simp
  qed
qed






lemma bw_select_oc_None: "bc_oc c = None \<Longrightarrow> bw_select_oc c tag pos gpos = Inr []"
  by (simp add: bw_select_oc_def)










subsection \<open>Distance to the constraint\<close>

text \<open>
  Claim C2. Let \<open>cs\<close> and \<open>ce\<close> be the bounds of the constraint in the window, as
  \<open>judge_diff\<close> computes them (\<open>cs0 - ws0 - 1\<close> and \<open>ce0 - ws0 - 1\<close>), with
  \<open>cs \<le> ce\<close>. Every line \<open>judge_diff\<close> hands to \<open>savelists\<close>, in either list, was made
  for a position \<open>pos\<close> of the scan that is not in \<open>cs..ce\<close>; its distance is
  \<open>-(pos - ce)\<close> when \<open>pos\<close> lies after \<open>ce\<close> and \<open>cs - pos\<close> when it lies before
  \<open>cs\<close>. So no line is made for a position of \<open>cs..ce\<close>, and none carries the distance
  0. The start coordinate of the line names the position.
\<close>

theorem distance_to_constraint:
  assumes "judge_diff goi chrom strand cons cs0 ce0 ws0 we0 gs ge ulim cutoff border1 border2
             noc uc pc = Inr (us, ps)"
    and "b \<in> set us \<union> set ps"
    and "cs0 - ws0 - 1 \<le> ce0 - ws0 - 1"
  shows "\<exists>pos. 0 \<le> pos \<and> pos < int (length uc)
           \<and> be_start b = (if strand \<noteq> ''-'' then pos + (ws0 + gs - 1)
                            else (ge - ws0) - pos - ulim - 1)
           \<and> \<not> (cs0 - ws0 - 1 \<le> pos \<and> pos \<le> ce0 - ws0 - 1)
           \<and> (ce0 - ws0 - 1 < pos \<longrightarrow> be_dist b = - (pos - (ce0 - ws0 - 1)))
           \<and> (pos < cs0 - ws0 - 1 \<longrightarrow> be_dist b = (cs0 - ws0 - 1) - pos)"
proof -
  let ?c = "judge_ctx_of goi chrom strand cons cs0 ce0 ws0 we0 gs ge ulim border1 border2 noc"
  from judge_diff_entries[OF assms(1)] assms(2) obtain pos arr where
    pos: "0 \<le> pos" "pos < int (length uc)" and l: "bed_line_of ?c arr pos b"
    by blast
  from l have
    out: "\<not> (cs0 - ws0 - 1 \<le> pos \<and> pos \<le> ce0 - ws0 - 1)"
    and d: "be_dist b = (if ce0 - ws0 - 1 < pos then - (pos - (ce0 - ws0 - 1))
                         else (cs0 - ws0 - 1) - pos)"
    and s: "be_start b = (if strand \<noteq> ''-'' then pos + (ws0 + gs - 1)
                          else (ge - ws0) - pos - ulim - 1)"
    by (simp_all add: bed_line_of_def judge_ctx_of_def)
  from d assms(3) have
    "(ce0 - ws0 - 1 < pos \<longrightarrow> be_dist b = - (pos - (ce0 - ws0 - 1)))
     \<and> (pos < cs0 - ws0 - 1 \<longrightarrow> be_dist b = (cs0 - ws0 - 1) - pos)"
    by auto
  with pos out s show ?thesis by blast
qed

text \<open>An instance: the constraint \<open>2..3\<close> in a window of six positions; the positions
  0 and 5 are reported with the distances 2 and -2, position 3 is not.\<close>

theorem distance_to_constraint_witness:
  "judge_diff ''g'' ''chr1'' ''+'' ''3-4'' 3 4 0 20 1000 2000 1 (Fin 0.2) (Fin 0.25) (Fin 1)
     [Fin 0.5, Fin 0.5, Fin 0.5, Fin 0.5, Fin 0.5, Fin 0.5]
     [Fin 0.5, Fin 0, Fin 0, Fin 0.5, Fin 0, Fin 0.5]
     [Fin 0, Fin 0, Fin 0, Fin 0, Fin 0, NaN] =
   Inr ([\<lparr>be_chrom = ''chr1'', be_start = 999, be_end = 1000, be_goi = ''g'',
          be_cons = ''3-4'', be_gcons = (1001, 1002),
          be_value = Fin 0.5, be_strand = ''+'', be_dist = 2, be_raw = 0\<rparr>,
         \<lparr>be_chrom = ''chr1'', be_start = 1004, be_end = 1005, be_goi = ''g'',
          be_cons = ''3-4'', be_gcons = (1001, 1002),
          be_value = Fin 0.5, be_strand = ''+'', be_dist = - 2, be_raw = 0\<rparr>], [])
   \<and> (3::int) - 0 - 1 \<le> 4 - 0 - 1
   \<and> (\<exists>pos::int. 0 \<le> pos \<and> pos < 6 \<and> 1004 = pos + (0 + 1000 - 1)
         \<and> \<not> (2 \<le> pos \<and> pos \<le> 3) \<and> (3 < pos \<longrightarrow> (- 2::int) = - (pos - 3))
         \<and> (pos < 2 \<longrightarrow> (- 2::int) = 2 - pos))"
proof -
  let ?e0 = "\<lparr>be_chrom = ''chr1'', be_start = 999, be_end = 1000, be_goi = ''g'',
          be_cons = ''3-4'', be_gcons = (1001, 1002),
          be_value = Fin 0.5, be_strand = ''+'', be_dist = 2, be_raw = 0\<rparr>"
  let ?e5 = "\<lparr>be_chrom = ''chr1'', be_start = 1004, be_end = 1005, be_goi = ''g'',
          be_cons = ''3-4'', be_gcons = (1001, 1002),
          be_value = Fin 0.5, be_strand = ''+'', be_dist = - 2, be_raw = 0\<rparr>"
  have h1: "judge_diff ''g'' ''chr1'' ''+'' ''3-4'' 3 4 0 20 1000 2000 1 (Fin 0.2) (Fin 0.25) (Fin 1)
     [Fin 0.5, Fin 0.5, Fin 0.5, Fin 0.5, Fin 0.5, Fin 0.5]
     [Fin 0.5, Fin 0, Fin 0, Fin 0.5, Fin 0, Fin 0.5]
     [Fin 0, Fin 0, Fin 0, Fin 0, Fin 0, NaN] = Inr ([?e0, ?e5], [])"
    by code_simp
  have h2: "?e5 \<in> set [?e0, ?e5] \<union> set []" by simp
  have h3: "(3::int) - 0 - 1 \<le> 4 - 0 - 1" by simp
  show ?thesis
    using h1 h3 distance_to_constraint[OF h1 h2 h3] by simp
qed

subsection \<open>Threshold and not-a-number\<close>



section \<open>Properties of whole-sequence fold results\<close>

lemma round_k_t_source: "round ((0.61632077549999997::real) * 2 ^ 53) = 5551324029764990"
  by (simp add: round_def)

lemma round_k_t_spec: "round ((0.6163207755::real) * 2 ^ 53) = 5551324029764990"
  by (simp add: round_def)

lemma k_t_value: "k_t = binary64_half_to_one 0.6163207755"
  by (simp only: k_t_def binary64_half_to_one_def round_k_t_source round_k_t_spec)

lemma deltas_relative_to_unconstrained:
  assumes "condition \<in> set valid_conditions" and "condition \<noteq> ''unconstrained''"
    and "fo_cond self ''unconstrained'' = Some u"
    and "from_rnamediator_fold_compound self fc condition constr start0 end0 = Inr self'"
  shows "\<exists>e g0 g n0. fo_cond self' condition = Some e
           \<and> fe_gibbs u = Some g0 \<and> ef_gibbs fc = Some g \<and> fe_nrg u = Some n0
           \<and> fe_ddg e = Some (g0 - g)
           \<and> fe_dnrg e = Some (n0 - calc_nrg (calc_bpp (fe_bppm e)))"
  using assms
  unfolding from_rnamediator_fold_compound_def Let_def
  by (auto split: option.splits if_splits)

subsection \<open>Opening energy\<close>

text \<open>
  Claim C8. For a base-pair probability \<open>p\<close> the opening energy \<open>_calc_nrg\<close> returns is
  \<open>-kT * ln p\<close> when \<open>p > 0\<close> and 0 otherwise, where \<open>kT\<close> is the float the decimal
  \<open>0.6163207755\<close> denotes: the literal \<open>0.61632077549999997\<close> of the source denotes the
  same binary64 number, \<open>5551324029764990 / 2^53\<close>. The function has no other argument,
  so the folding temperature does not enter.
\<close>

theorem opening_energy:
  "calc_nrg p = (if 0 < p then - (binary64_half_to_one 0.6163207755) * ln p else 0)
   \<and> k_t = binary64_half_to_one 0.6163207755
   \<and> k_t = 5551324029764990 / 2 ^ 53"
proof -
  have v: "binary64_half_to_one 0.6163207755 = 5551324029764990 / 2 ^ 53"
    by (simp only: binary64_half_to_one_def round_k_t_spec)
  have n: "calc_nrg p = (if 0 < p then - (binary64_half_to_one 0.6163207755) * ln p else 0)"
    by (simp add: calc_nrg_def k_t_value)
  from n k_t_value v show ?thesis by simp
qed

subsection \<open>Deltas without an unconstrained entry\<close>

text \<open>
  Claim C9. When \<open>from_rnamediator_fold_compound\<close> fills a \<open>FoldOutput\<close> for a valid
  condition and nothing is stored under the key \<open>unconstrained\<close>, or the condition is
  \<open>unconstrained\<close> itself, it returns without an error and the deltas \<open>ddg\<close> and
  \<open>dnrg\<close> it stores for the condition are 0; the other conditions are left as they
  were. The deltas are differences to the values under \<open>unconstrained\<close> only when
  that key is present and the condition is another one.
\<close>

theorem deltas_default_to_zero:
  assumes "condition \<in> set valid_conditions"
    and "fo_cond self ''unconstrained'' = None \<or> condition = ''unconstrained''"
  shows "\<exists>self' e. from_rnamediator_fold_compound self fc condition constr start0 end0 = Inr self'
           \<and> fo_cond self' condition = Some e
           \<and> fe_ddg e = Some 0 \<and> fe_dnrg e = Some 0
           \<and> fe_gibbs e = ef_gibbs fc
           \<and> (\<forall>k. k \<noteq> condition \<longrightarrow> fo_cond self' k = fo_cond self k)"
  using assms
  unfolding from_rnamediator_fold_compound_def Let_def
  by (auto split: option.splits)

text \<open>An instance: a \<open>FoldOutput\<close> that holds only the condition
  \<open>constraint_paired\<close>.\<close>

theorem deltas_default_to_zero_witness:
  "''constraint_paired'' \<in> set valid_conditions
   \<and> fold_output_init ''constraint_paired'' None None =
       Inr \<lparr>fo_anno = None,
             fo_cond = Map.empty(''constraint_paired'' \<mapsto>
               \<lparr>fe_gibbs = None, fe_constraint = None, fe_bppm = Some [],
                fe_bpp = None, fe_nrg = None, fe_ddg = None, fe_dnrg = None\<rparr>)\<rparr>
   \<and> (\<exists>self' e. from_rnamediator_fold_compound
         \<lparr>fo_anno = None,
          fo_cond = Map.empty(''constraint_paired'' \<mapsto>
               \<lparr>fe_gibbs = None, fe_constraint = None, fe_bppm = Some [],
                fe_bpp = None, fe_nrg = None, fe_ddg = None, fe_dnrg = None\<rparr>)\<rparr>
         \<lparr>ef_gibbs = Some (- 3), ef_bpp = [[0, 0.5], [0.5, 0]], ef_length = 1\<rparr>
         ''constraint_paired'' (Some ''1-1'') (Some 0) (Some 1) = Inr self'
       \<and> fo_cond self' ''constraint_paired'' = Some e
       \<and> fe_ddg e = Some 0 \<and> fe_dnrg e = Some 0 \<and> fe_gibbs e = Some (- 3))"
proof -
  let ?self = "\<lparr>fo_anno = None,
          fo_cond = Map.empty(''constraint_paired'' \<mapsto>
               \<lparr>fe_gibbs = None, fe_constraint = None, fe_bppm = Some [],
                fe_bpp = None, fe_nrg = None, fe_ddg = None, fe_dnrg = None\<rparr>)\<rparr>"
  let ?fc = "\<lparr>ef_gibbs = Some (- 3), ef_bpp = [[0, 0.5], [0.5, 0]], ef_length = 1\<rparr>"
  have h1: "''constraint_paired'' \<in> set valid_conditions"
    by (simp add: valid_conditions_def)
  have h2: "fo_cond ?self ''unconstrained'' = None \<or> ''constraint_paired'' = ''unconstrained''"
    by simp
  have h3: "fold_output_init ''constraint_paired'' None None = Inr ?self"
    by (simp add: fold_output_init_def valid_conditions_def)
  show ?thesis
    using h1 h3 deltas_default_to_zero[OF h1 h2, of ?fc "Some ''1-1''" "Some 0" "Some 1"]
    by auto
qed

section \<open>Properties of the profile text\<close>

subsection \<open>Splitting, joining and replacing\<close>



















subsection \<open>The lines of a sanitized text\<close>











subsection \<open>Round trip through the text\<close>




end
